theory Spec2Isabelle
  imports Complex_Main
begin

section \<open>Values shared by both source files\<close>

text \<open>
  The exceptions the two files can raise, as values. \<open>TensorError\<close> stands for the
  errors the tensor library raises on a shape it cannot handle.
\<close>

datatype py_error =
    NotImplementedError
  | KeyError string
  | IndexError
  | TensorError string
  | ValueError string
  | AttributeError string

text \<open>
  A tensor is its shape and its elements in row-major order. Elements are real numbers:
  floating-point scores are idealised (no NaN, no rounding), integer and boolean
  tensors hold whole numbers and 0/1. A tensor the library can build satisfies
  \<open>tensor_ok\<close>.
\<close>

record tensor =
  shape :: "nat list"
  elems :: "real list"

definition tensor_ok :: "tensor \<Rightarrow> bool" where
  "tensor_ok t = (length (elems t) = prod_list (shape t))"

text \<open>\<^verbatim>\<open>t.flatten()\<close>: one dimension holding every element.\<close>

definition flatten :: "tensor \<Rightarrow> tensor" where
  "flatten t = \<lparr>shape = [length (elems t)], elems = elems t\<rparr>"

text \<open>
  \<^verbatim>\<open>t.int()\<close>: conversion to an integer tensor, which truncates towards zero. Values
  beyond the 32-bit range are outside the model.
\<close>

definition trunc :: "real \<Rightarrow> real" where
  "trunc x = (if 0 \<le> x then of_int \<lfloor>x\<rfloor> else of_int \<lceil>x\<rceil>)"

definition tensor_int :: "tensor \<Rightarrow> tensor" where
  "tensor_int t = \<lparr>shape = shape t, elems = map trunc (elems t)\<rparr>"

text \<open>\<^verbatim>\<open>t >= v\<close>: the elementwise comparison with a scalar, a 0/1 tensor of the same shape.\<close>

definition tensor_ge :: "tensor \<Rightarrow> real \<Rightarrow> tensor" where
  "tensor_ge t v = \<lparr>shape = shape t, elems = map (\<lambda>x. if v \<le> x then 1 else 0) (elems t)\<rparr>"

text \<open>The largest element of a non-empty list, scanned from the left.\<close>

fun list_max :: "real list \<Rightarrow> real" where
  "list_max (x # xs) = fold max xs x"

text \<open>
  Row \<open>i\<close> of the elements seen as a matrix with rows of \<open>c\<close> elements, which is
  sample \<open>i\<close> of \<^verbatim>\<open>t.reshape(t.shape[0], -1)\<close>.
\<close>

definition row :: "nat \<Rightarrow> real list \<Rightarrow> nat \<Rightarrow> real list" where
  "row c xs i = take c (drop (i * c) xs)"

text \<open>
  \<^verbatim>\<open>t.reshape(t.shape[0], -1).max(dim=1).values\<close>. A tensor without dimensions has
  no \<^verbatim>\<open>shape[0]\<close>; with no samples the size of the second dimension cannot be
  inferred (a \<^verbatim>\<open>RuntimeError\<close>); with samples of no elements there is nothing to take
  the maximum of (an \<^verbatim>\<open>IndexError\<close>).
\<close>

definition sample_max :: "tensor \<Rightarrow> py_error + tensor" where
  "sample_max t =
     (case shape t of
        [] \<Rightarrow> Inl IndexError
      | n # rest \<Rightarrow>
          if n = 0 then Inl (TensorError ''cannot reshape tensor of 0 elements'')
          else let c = prod_list rest in
            if c = 0 then Inl IndexError
            else Inr \<lparr>shape = [n], elems = map (\<lambda>i. list_max (row c (elems t) i)) [0..<n]\<rparr>)"

section \<open>anomalib/core/model/anomalib\_module.py\<close>

text \<open>The mapping a step produces for one batch: optional keys, tensor values.\<close>

type_synonym batch_output = "string \<rightharpoonup> tensor"

text \<open>
  The metric objects come from outside the two files. What the module does with them
  is \<^verbatim>\<open>update(preds, target)\<close>, which is modelled by the sequence of pairs the object
  has been fed, in order. \<open>AdaptiveThreshold\<close> adds the scalar \<^verbatim>\<open>value\<close>, the
  metric collection adds the cutoff of its F1 metric and the prefix of its names.
\<close>

record aggregator =
  fed :: "(tensor \<times> tensor) list"

record AdaptiveThreshold = aggregator +
  threshold_value :: real

record MetricCollection = aggregator +
  F1_threshold :: real
  prefix :: string

definition update :: "'a aggregator_scheme \<Rightarrow> tensor \<Rightarrow> tensor \<Rightarrow> 'a aggregator_scheme" where
  "update m preds target = m\<lparr>fed := fed m @ [(preds, target)]\<rparr>"

text \<open>
  \<^verbatim>\<open>AdaptiveThreshold.compute()\<close> stores in \<^verbatim>\<open>value\<close> a threshold chosen from
  what the object has been fed. The choice is made outside the two files, so it is the
  parameter \<open>pick\<close>.
\<close>

definition compute ::
  "((tensor \<times> tensor) list \<Rightarrow> real) \<Rightarrow> AdaptiveThreshold \<Rightarrow> AdaptiveThreshold" where
  "compute pick t = t\<lparr>threshold_value := pick (fed t)\<rparr>"

text \<open>The fields of \<open>AnomalibModule\<close> the hooks read and write, and what has been logged.\<close>

record AnomalibModule =
  task :: string
  adaptive_threshold :: bool
  image_threshold :: AdaptiveThreshold
  pixel_threshold :: AdaptiveThreshold
  image_metrics :: MetricCollection
  pixel_metrics :: MetricCollection
  logged :: "MetricCollection list"

text \<open>\<^verbatim>\<open>__init__\<close>. The F1 metric starts with the library's cutoff 0.5.\<close>

definition init :: "string \<Rightarrow> bool \<Rightarrow> real \<Rightarrow> real \<Rightarrow> AnomalibModule" where
  "init task' adaptive default_image_threshold default_pixel_threshold =
     \<lparr>task = task',
      adaptive_threshold = adaptive,
      image_threshold = \<lparr>fed = [], threshold_value = default_image_threshold\<rparr>,
      pixel_threshold = \<lparr>fed = [], threshold_value = default_pixel_threshold\<rparr>,
      image_metrics = \<lparr>fed = [], F1_threshold = 0.5, prefix = ''image_''\<rparr>,
      pixel_metrics = \<lparr>fed = [], F1_threshold = 0.5, prefix = ''pixel_''\<rparr>,
      logged = []\<rparr>"

text \<open>
  \<^verbatim>\<open>validation_step\<close> raises in the base class and is supplied by a subclass. The
  override a module carries is \<open>impl\<close>: \<open>None\<close> for the base class.
\<close>

type_synonym 'b step = "'b \<Rightarrow> nat \<Rightarrow> py_error + batch_output"

definition validation_step :: "'b step option \<Rightarrow> 'b \<Rightarrow> nat \<Rightarrow> py_error + batch_output" where
  "validation_step impl batch batch_idx =
     (case impl of None \<Rightarrow> Inl NotImplementedError | Some f \<Rightarrow> f batch batch_idx)"

text \<open>\<^verbatim>\<open>_post_process\<close>: changes the mapping in place; on an error it is as it was.\<close>

definition post_process :: "batch_output \<Rightarrow> py_error + batch_output" where
  "post_process outputs =
     (if outputs ''pred_scores'' = None \<and> outputs ''anomaly_maps'' \<noteq> None then
        (case sample_max (the (outputs ''anomaly_maps'')) of
           Inl e \<Rightarrow> Inl e
         | Inr scores \<Rightarrow> Inr (outputs(''pred_scores'' \<mapsto> scores)))
      else Inr outputs)"

definition predict_step ::
  "'b step option \<Rightarrow> AnomalibModule \<Rightarrow> 'b \<Rightarrow> nat \<Rightarrow> py_error + batch_output" where
  "predict_step impl self batch batch_idx =
     (case validation_step impl batch batch_idx of
        Inl e \<Rightarrow> Inl e
      | Inr outputs \<Rightarrow>
          (case post_process outputs of
             Inl e \<Rightarrow> Inl e
           | Inr outputs' \<Rightarrow>
               (case outputs' ''pred_scores'' of
                  None \<Rightarrow> Inl (KeyError ''pred_scores'')
                | Some scores \<Rightarrow>
                    Inr (outputs'(''pred_labels'' \<mapsto>
                           tensor_ge scores (threshold_value (image_threshold self)))))))"

definition test_step :: "'b step option \<Rightarrow> 'b \<Rightarrow> nat \<Rightarrow> py_error + batch_output" where
  "test_step impl batch batch_idx = validation_step impl batch batch_idx"

definition validation_step_end :: "batch_output \<Rightarrow> py_error + batch_output" where
  "validation_step_end val_step_outputs = post_process val_step_outputs"

definition test_step_end :: "batch_output \<Rightarrow> py_error + batch_output" where
  "test_step_end test_step_outputs = post_process test_step_outputs"

text \<open>Whether one output carries both \<^verbatim>\<open>mask\<close> and \<^verbatim>\<open>anomaly_maps\<close>.\<close>

definition has_mask_and_maps :: "batch_output \<Rightarrow> bool" where
  "has_mask_and_maps output = (output ''mask'' \<noteq> None \<and> output ''anomaly_maps'' \<noteq> None)"

text \<open>
  \<^verbatim>\<open>_collect_outputs\<close>. The loop changes the two metric objects as it goes, so an
  output with a missing key ends it with the error and with the objects as the earlier
  outputs left them.
\<close>

fun collect_outputs ::
  "'a aggregator_scheme \<Rightarrow> 'b aggregator_scheme \<Rightarrow> batch_output list \<Rightarrow>
   py_error option \<times> 'a aggregator_scheme \<times> 'b aggregator_scheme" where
  "collect_outputs image_metric pixel_metric [] = (None, image_metric, pixel_metric)"
| "collect_outputs image_metric pixel_metric (output # outputs) =
     (case output ''pred_scores'' of
        None \<Rightarrow> (Some (KeyError ''pred_scores''), image_metric, pixel_metric)
      | Some scores \<Rightarrow>
          (case output ''label'' of
             None \<Rightarrow> (Some (KeyError ''label''), image_metric, pixel_metric)
           | Some label \<Rightarrow>
               collect_outputs
                 (update image_metric scores (tensor_int label))
                 (if has_mask_and_maps output then
                    update pixel_metric
                      (flatten (the (output ''anomaly_maps'')))
                      (tensor_int (flatten (the (output ''mask''))))
                  else pixel_metric)
                 outputs))"

text \<open>\<^verbatim>\<open>_log_metrics\<close>: what is logged is the metric collection as it is at that moment.\<close>

definition log_metrics :: "AnomalibModule \<Rightarrow> AnomalibModule" where
  "log_metrics self =
     (let self1 = self\<lparr>logged := logged self @ [image_metrics self]\<rparr> in
      if task self1 = ''segmentation''
      then self1\<lparr>logged := logged self1 @ [pixel_metrics self1]\<rparr>
      else self1)"

text \<open>
  \<^verbatim>\<open>_compute_adaptive_threshold\<close>. The test that chooses between computing the pixel
  threshold and copying the image threshold reads \<^verbatim>\<open>outputs[0]\<close>, which an empty
  epoch does not have.
\<close>

definition compute_adaptive_threshold ::
  "((tensor \<times> tensor) list \<Rightarrow> real) \<Rightarrow> AnomalibModule \<Rightarrow> batch_output list \<Rightarrow>
   py_error option \<times> AnomalibModule" where
  "compute_adaptive_threshold pick self outputs =
     (case collect_outputs (image_threshold self) (pixel_threshold self) outputs of
        (Some e, it, pt) \<Rightarrow> (Some e, self\<lparr>image_threshold := it, pixel_threshold := pt\<rparr>)
      | (None, it, pt) \<Rightarrow>
          (let it' = compute pick it;
               self1 = self\<lparr>image_threshold := it', pixel_threshold := pt\<rparr>
           in case outputs of
                [] \<Rightarrow> (Some IndexError, self1)
              | first # _ \<Rightarrow>
                  (let pt' = (if first ''mask'' \<noteq> None \<and> first ''anomaly_maps'' \<noteq> None
                              then compute pick pt
                              else pt\<lparr>threshold_value := threshold_value it'\<rparr>)
                   in (None,
                       self1\<lparr>pixel_threshold := pt',
                         image_metrics := (image_metrics self1)\<lparr>F1_threshold := threshold_value it'\<rparr>,
                         pixel_metrics := (pixel_metrics self1)\<lparr>F1_threshold := threshold_value pt'\<rparr>\<rparr>))))"

text \<open>
  The two epoch hooks. Both feed the outputs to the metric collections and log; an
  error while feeding ends the hook before anything is logged.
\<close>

definition validation_epoch_end ::
  "((tensor \<times> tensor) list \<Rightarrow> real) \<Rightarrow> AnomalibModule \<Rightarrow> batch_output list \<Rightarrow>
   py_error option \<times> AnomalibModule" where
  "validation_epoch_end pick self outputs =
     (case (if adaptive_threshold self then compute_adaptive_threshold pick self outputs
            else (None, self)) of
        (Some e, self1) \<Rightarrow> (Some e, self1)
      | (None, self1) \<Rightarrow>
          (case collect_outputs (image_metrics self1) (pixel_metrics self1) outputs of
             (Some e, im, pm) \<Rightarrow> (Some e, self1\<lparr>image_metrics := im, pixel_metrics := pm\<rparr>)
           | (None, im, pm) \<Rightarrow>
               (None, log_metrics (self1\<lparr>image_metrics := im, pixel_metrics := pm\<rparr>))))"

definition test_epoch_end ::
  "AnomalibModule \<Rightarrow> batch_output list \<Rightarrow> py_error option \<times> AnomalibModule" where
  "test_epoch_end self outputs =
     (case collect_outputs (image_metrics self) (pixel_metrics self) outputs of
        (Some e, im, pm) \<Rightarrow> (Some e, self\<lparr>image_metrics := im, pixel_metrics := pm\<rparr>)
      | (None, im, pm) \<Rightarrow>
          (None, log_metrics (self\<lparr>image_metrics := im, pixel_metrics := pm\<rparr>)))"

section \<open>anomalib/core/callbacks/save\_to\_csv.py\<close>

text \<open>
  The results a module holds at the end of testing, one entry per test sample: file
  names, ground-truth classes as integers, and the binary decisions.
\<close>

record results =
  filenames :: "string list"
  true_labels :: "int list"
  pred_labels :: "bool list"

text \<open>The table that is written. The row index is the position in the columns.\<close>

record data_frame =
  name :: "string list"
  true_label :: "int list"
  pred_label :: "int list"
  wrong_prediction :: "int list"

text \<open>\<^verbatim>\<open>a.astype(int)\<close> on booleans.\<close>

definition astype_int :: "bool list \<Rightarrow> int list" where
  "astype_int bs = map (\<lambda>b. if b then 1 else 0) bs"

text \<open>
  \<^verbatim>\<open>np.logical_xor(a, b)\<close>: an integer counts as true when it is not zero. Arrays of
  the same length are combined position by position, an array of one element is
  combined with every element of the other, and other lengths do not go together.
\<close>

definition logical_xor :: "int list \<Rightarrow> bool list \<Rightarrow> py_error + bool list" where
  "logical_xor a b =
     (if length a = length b then Inr (map (\<lambda>(x, y). (x \<noteq> 0) \<noteq> y) (zip a b))
      else if length a = 1 then Inr (map (\<lambda>y. (hd a \<noteq> 0) \<noteq> y) b)
      else if length b = 1 then Inr (map (\<lambda>x. (x \<noteq> 0) \<noteq> hd b) a)
      else Inl (ValueError ''operands could not be broadcast together''))"

text \<open>\<^verbatim>\<open>pd.DataFrame({...})\<close> of four columns, which must have one length.\<close>

definition DataFrame ::
  "string list \<Rightarrow> int list \<Rightarrow> int list \<Rightarrow> int list \<Rightarrow> py_error + data_frame" where
  "DataFrame names trues preds wrongs =
     (if length names = length trues \<and> length trues = length preds \<and> length preds = length wrongs
      then Inr \<lparr>name = names, true_label = trues, pred_label = preds, wrong_prediction = wrongs\<rparr>
      else Inl (ValueError ''All arrays must be of the same length''))"

text \<open>
  A path is a starting string and the components added with \<^verbatim>\<open>/\<close>. The file system
  maps a path to the table written there; the directory is taken to exist and to be
  writable.
\<close>

datatype path = Path string | Div path string

type_synonym file_system = "path \<rightharpoonup> data_frame"

text \<open>
  \<^verbatim>\<open>SaveToCSVCallback.on_test_epoch_end\<close>. \<open>log_dir\<close> is \<^verbatim>\<open>trainer.log_dir\<close>,
  \<open>module_results\<close> is the attribute \<^verbatim>\<open>pl_module.results\<close> (\<open>None\<close> when the module
  has no such attribute). The table is built before the log directory is looked at.
\<close>

definition on_test_epoch_end ::
  "string option \<Rightarrow> results option \<Rightarrow> file_system \<Rightarrow> py_error option \<times> file_system" where
  "on_test_epoch_end log_dir module_results fs =
     (case module_results of
        None \<Rightarrow> (Some (AttributeError ''results''), fs)
      | Some results \<Rightarrow>
          (case logical_xor (true_labels results) (pred_labels results) of
             Inl e \<Rightarrow> (Some e, fs)
           | Inr wrong \<Rightarrow>
               (case DataFrame (filenames results) (true_labels results)
                       (astype_int (pred_labels results)) (astype_int wrong) of
                  Inl e \<Rightarrow> (Some e, fs)
                | Inr frame \<Rightarrow>
                    (case log_dir of
                       Some dir \<Rightarrow> (None, fs(Div (Path dir) ''results.csv'' \<mapsto> frame))
                     | None \<Rightarrow>
                         (Some (ValueError ''trainer.log_dir does not exist to save the results.''),
                          fs)))))"

text \<open>Results with one entry per sample in each of the three arrays.\<close>

definition results_ok :: "results \<Rightarrow> bool" where
  "results_ok r =
     (length (filenames r) = length (true_labels r) \<and> length (true_labels r) = length (pred_labels r))"

section \<open>Vocabulary for the properties\<close>

text \<open>What one output feeds to the image-level object and to the pixel-level object.\<close>

definition image_pair :: "batch_output \<Rightarrow> tensor \<times> tensor" where
  "image_pair output = (the (output ''pred_scores''), tensor_int (the (output ''label'')))"

definition pixel_pair :: "batch_output \<Rightarrow> tensor \<times> tensor" where
  "pixel_pair output =
     (flatten (the (output ''anomaly_maps'')), tensor_int (flatten (the (output ''mask''))))"

text \<open>An output \<^verbatim>\<open>_collect_outputs\<close> can read: it has the two keys the loop looks up.\<close>

definition has_scores_and_label :: "batch_output \<Rightarrow> bool" where
  "has_scores_and_label output = (output ''pred_scores'' \<noteq> None \<and> output ''label'' \<noteq> None)"

subsection \<open>Concrete inputs\<close>

text \<open>
  One rule a threshold object could follow, to run the hooks on concrete epochs: the
  largest prediction it has been fed, and 0 before it has been fed any.
\<close>

definition largest_fed_prediction :: "(tensor \<times> tensor) list \<Rightarrow> real" where
  "largest_fed_prediction pairs =
     fold max (concat (map (\<lambda>(preds, target). elems preds) pairs)) 0"

definition vector :: "real list \<Rightarrow> tensor" where
  "vector xs = \<lparr>shape = [length xs], elems = xs\<rparr>"

text \<open>An output of one sample with a 1 x 2 anomaly map and mask, and one without both.\<close>

definition masked_output :: batch_output where
  "masked_output =
     [''pred_scores'' \<mapsto> vector [0.2], ''label'' \<mapsto> vector [0],
      ''anomaly_maps'' \<mapsto> \<lparr>shape = [1, 1, 2], elems = [0.1, 0.3]\<rparr>,
      ''mask'' \<mapsto> \<lparr>shape = [1, 1, 2], elems = [0, 1]\<rparr>]"

definition unmasked_output :: batch_output where
  "unmasked_output = [''pred_scores'' \<mapsto> vector [0.9], ''label'' \<mapsto> vector [1]]"

text \<open>Anomaly maps of two samples, 1 x 2 each.\<close>

definition example_maps :: tensor where
  "example_maps = \<lparr>shape = [2, 1, 2], elems = [0.1, 0.5, 0.2, 0]\<rparr>"

definition example_results :: results where
  "example_results =
     \<lparr>filenames = [''a.png'', ''b.png''], true_labels = [1, 1], pred_labels = [False, True]\<rparr>"

section \<open>Properties\<close>

subsection \<open>Per-sample maximum\<close>

lemma list_max_Max: "xs \<noteq> [] \<Longrightarrow> list_max xs = Max (set xs)"
  by (cases xs) (simp_all add: Max.set_eq_fold del: set_simps)

lemma length_row:
  assumes "i < n" "length xs = n * c"
  shows "length (row c xs i) = c"
proof -
  from assms have "Suc i \<le> n" by simp
  then have "Suc i * c \<le> n * c" by (rule mult_le_mono1)
  then have "c \<le> n * c - i * c" by simp
  with assms show ?thesis by (simp add: row_def)
qed

lemma nth_row:
  assumes "i < n" "length xs = n * c" "j < c"
  shows "row c xs i ! j = xs ! (i * c + j)"
proof -
  from assms have "Suc i \<le> n" by simp
  then have "Suc i * c \<le> n * c" by (rule mult_le_mono1)
  with assms have "i * c + j < length xs" by simp
  with assms show ?thesis by (simp add: row_def)
qed

lemma list_max_row:
  assumes "i < n" "length xs = n * c" "0 < c"
  shows "(\<forall>j<c. xs ! (i * c + j) \<le> list_max (row c xs i)) \<and>
         (\<exists>j<c. list_max (row c xs i) = xs ! (i * c + j))"
proof -
  let ?r = "row c xs i"
  have len: "length ?r = c" using assms by (simp add: length_row)
  then have ne: "?r \<noteq> []" using assms by auto
  have mx: "list_max ?r = Max (set ?r)" using ne by (rule list_max_Max)
  have "\<forall>j<c. xs ! (i * c + j) \<le> list_max ?r"
  proof (intro allI impI)
    fix j assume j: "j < c"
    then have "?r ! j \<in> set ?r" using len by simp
    then have "?r ! j \<le> Max (set ?r)" by simp
    then show "xs ! (i * c + j) \<le> list_max ?r"
      using assms j mx by (simp add: nth_row)
  qed
  moreover have "\<exists>j<c. list_max ?r = xs ! (i * c + j)"
  proof -
    have "Max (set ?r) \<in> set ?r" using ne by simp
    then obtain j where "j < length ?r" "?r ! j = Max (set ?r)"
      by (auto simp: in_set_conv_nth)
    then show ?thesis using assms len mx by (auto simp: nth_row)
  qed
  ultimately show ?thesis by simp
qed

text \<open>
  Claim C2. When \<^verbatim>\<open>pred_scores\<close> is absent and \<^verbatim>\<open>anomaly_maps\<close> is present
  (a tensor of \<open>n > 0\<close> samples with at least one position each), \<^verbatim>\<open>_post_process\<close>
  adds \<^verbatim>\<open>pred_scores\<close>, a tensor of \<open>n\<close> scores, and changes no other key. Score \<open>i\<close>
  is the maximum over the positions of sample \<open>i\<close>: no element of the sample is larger,
  and one of them is equal to it. In every other case the mapping comes back as it was.
\<close>

theorem post_process_pred_scores:
  "(outputs ''pred_scores'' = None \<and> outputs ''anomaly_maps'' = Some maps \<and>
    tensor_ok maps \<and> shape maps = n # rest \<and> 0 < n \<and> 0 < prod_list rest \<longrightarrow>
      (\<exists>scores. post_process outputs = Inr (outputs(''pred_scores'' \<mapsto> scores)) \<and>
         shape scores = [n] \<and> length (elems scores) = n \<and>
         (\<forall>i<n. (\<forall>j<prod_list rest. elems maps ! (i * prod_list rest + j) \<le> elems scores ! i) \<and>
                 (\<exists>j<prod_list rest. elems scores ! i = elems maps ! (i * prod_list rest + j))))) \<and>
   (\<not> (outputs ''pred_scores'' = None \<and> outputs ''anomaly_maps'' \<noteq> None) \<longrightarrow>
      post_process outputs = Inr outputs)"
proof (intro conjI impI)
  assume a: "outputs ''pred_scores'' = None \<and> outputs ''anomaly_maps'' = Some maps \<and>
    tensor_ok maps \<and> shape maps = n # rest \<and> 0 < n \<and> 0 < prod_list rest"
  let ?c = "prod_list rest"
  let ?s = "\<lparr>shape = [n], elems = map (\<lambda>i. list_max (row ?c (elems maps) i)) [0..<n]\<rparr>"
  have len: "length (elems maps) = n * ?c" using a by (simp add: tensor_ok_def)
  have "post_process outputs = Inr (outputs(''pred_scores'' \<mapsto> ?s))"
    using a by (simp add: post_process_def sample_max_def)
  moreover have "\<forall>i<n. (\<forall>j<?c. elems maps ! (i * ?c + j) \<le> elems ?s ! i) \<and>
                 (\<exists>j<?c. elems ?s ! i = elems maps ! (i * ?c + j))"
    using a len list_max_row [of _ n "elems maps" ?c] by simp
  ultimately show "\<exists>scores. post_process outputs = Inr (outputs(''pred_scores'' \<mapsto> scores)) \<and>
         shape scores = [n] \<and> length (elems scores) = n \<and>
         (\<forall>i<n. (\<forall>j<?c. elems maps ! (i * ?c + j) \<le> elems scores ! i) \<and>
                 (\<exists>j<?c. elems scores ! i = elems maps ! (i * ?c + j)))"
    by (intro exI [of _ ?s]) simp
next
  assume "\<not> (outputs ''pred_scores'' = None \<and> outputs ''anomaly_maps'' \<noteq> None)"
  then show "post_process outputs = Inr outputs"
    by (auto simp: post_process_def)
qed

theorem post_process_pred_scores_witness:
  "tensor_ok example_maps \<and> shape example_maps = [2, 1, 2] \<and>
   post_process [''anomaly_maps'' \<mapsto> example_maps] =
     Inr [''anomaly_maps'' \<mapsto> example_maps,
          ''pred_scores'' \<mapsto> \<lparr>shape = [2], elems = [0.5, 0.2]\<rparr>] \<and>
   post_process [''pred_scores'' \<mapsto> vector [0.7], ''anomaly_maps'' \<mapsto> example_maps] =
     Inr [''pred_scores'' \<mapsto> vector [0.7], ''anomaly_maps'' \<mapsto> example_maps]"
  using post_process_pred_scores [of "[''anomaly_maps'' \<mapsto> example_maps]" example_maps 2 "[1, 2]"]
    post_process_pred_scores [of "[''pred_scores'' \<mapsto> vector [0.7], ''anomaly_maps'' \<mapsto> example_maps]"]
  by (simp add: example_maps_def tensor_ok_def vector_def post_process_def sample_max_def
      row_def upt_rec)

text \<open>
  Claim C7. \<^verbatim>\<open>_post_process\<close> is idempotent: running it on its own result gives that
  result again, and a run that fails has nothing to be run on again.
\<close>

theorem post_process_idempotent:
  "(case post_process outputs of Inl e \<Rightarrow> Inl e | Inr outputs' \<Rightarrow> post_process outputs') =
   post_process outputs"
  by (auto simp: post_process_def split: sum.splits)

subsection \<open>Steps\<close>

text \<open>
  Claim C9. In the base class, where nothing overrides it, \<^verbatim>\<open>validation_step\<close> raises
  \<^verbatim>\<open>NotImplementedError\<close> for every batch, and the two steps that call it,
  \<^verbatim>\<open>test_step\<close> and \<^verbatim>\<open>predict_step\<close>, let the error through.
\<close>

theorem validation_step_not_implemented:
  "validation_step None batch batch_idx = Inl NotImplementedError \<and>
   test_step None batch batch_idx = Inl NotImplementedError \<and>
   predict_step None self batch batch_idx = Inl NotImplementedError"
  by (simp add: validation_step_def test_step_def predict_step_def)

text \<open>
  Claim C3. \<^verbatim>\<open>predict_step\<close> returns what \<^verbatim>\<open>validation_step\<close> and then
  \<^verbatim>\<open>_post_process\<close> produce, with \<^verbatim>\<open>pred_labels\<close> added: a tensor shaped like
  \<^verbatim>\<open>pred_scores\<close> whose entry \<open>i\<close> is 1 when score \<open>i\<close> is at least the value of
  the image threshold (so also when it is equal to it) and 0 otherwise. An error of
  either step is the result, and scores that are still missing are a \<^verbatim>\<open>KeyError\<close>.
\<close>

theorem predict_step_labels:
  "(validation_step impl batch batch_idx = Inr outputs \<and> post_process outputs = Inr outputs' \<and>
    outputs' ''pred_scores'' = Some scores \<longrightarrow>
      (\<exists>labels.
         predict_step impl self batch batch_idx = Inr (outputs'(''pred_labels'' \<mapsto> labels)) \<and>
         shape labels = shape scores \<and> length (elems labels) = length (elems scores) \<and>
         (\<forall>i<length (elems scores).
            elems labels ! i =
              (if threshold_value (image_threshold self) \<le> elems scores ! i then 1 else 0)))) \<and>
   (validation_step impl batch batch_idx = Inr outputs \<and> post_process outputs = Inr outputs' \<and>
    outputs' ''pred_scores'' = None \<longrightarrow>
      predict_step impl self batch batch_idx = Inl (KeyError ''pred_scores'')) \<and>
   (validation_step impl batch batch_idx = Inr outputs \<and> post_process outputs = Inl e \<longrightarrow>
      predict_step impl self batch batch_idx = Inl e) \<and>
   (validation_step impl batch batch_idx = Inl e \<longrightarrow>
      predict_step impl self batch batch_idx = Inl e)"
  by (auto simp: predict_step_def tensor_ge_def)

theorem predict_step_labels_witness:
  "predict_step (Some (\<lambda>batch batch_idx. Inr [''anomaly_maps'' \<mapsto> batch]))
     (init ''classification'' False 0.5 0.5) example_maps 0 =
   Inr [''anomaly_maps'' \<mapsto> example_maps,
        ''pred_scores'' \<mapsto> \<lparr>shape = [2], elems = [0.5, 0.2]\<rparr>,
        ''pred_labels'' \<mapsto> \<lparr>shape = [2], elems = [1, 0]\<rparr>]"
  using predict_step_labels [of "Some (\<lambda>batch batch_idx. Inr [''anomaly_maps'' \<mapsto> batch])"
      example_maps 0 "[''anomaly_maps'' \<mapsto> example_maps]"
      "[''anomaly_maps'' \<mapsto> example_maps, ''pred_scores'' \<mapsto> \<lparr>shape = [2], elems = [0.5, 0.2]\<rparr>]"
      "\<lparr>shape = [2], elems = [0.5, 0.2]\<rparr>" "init ''classification'' False 0.5 0.5"]
  by (simp add: example_maps_def post_process_def sample_max_def validation_step_def
      row_def upt_rec predict_step_def tensor_ge_def init_def)

subsection \<open>Feeding the metric objects\<close>

lemma collect_outputs_all:
  "list_all has_scores_and_label outputs \<Longrightarrow>
   collect_outputs im pm outputs =
     (None, im\<lparr>fed := fed im @ map image_pair outputs\<rparr>,
            pm\<lparr>fed := fed pm @ map pixel_pair (filter has_mask_and_maps outputs)\<rparr>)"
proof (induction outputs arbitrary: im pm)
  case Nil
  then show ?case by simp
next
  case (Cons out outputs)
  then obtain scores label where
    k: "out ''pred_scores'' = Some scores" "out ''label'' = Some label"
    by (auto simp: has_scores_and_label_def)
  from Cons.prems have rest: "list_all has_scores_and_label outputs" by simp
  show ?case
    using k Cons.IH [OF rest]
    by (simp add: update_def image_pair_def pixel_pair_def)
qed

lemma collect_outputs_stops:
  "list_all has_scores_and_label good \<Longrightarrow> \<not> has_scores_and_label bad \<Longrightarrow>
   collect_outputs im pm (good @ bad # rest) =
     (Some (KeyError (if bad ''pred_scores'' = None then ''pred_scores'' else ''label'')),
      im\<lparr>fed := fed im @ map image_pair good\<rparr>,
      pm\<lparr>fed := fed pm @ map pixel_pair (filter has_mask_and_maps good)\<rparr>)"
proof (induction good arbitrary: im pm)
  case Nil
  then show ?case
    by (auto simp: has_scores_and_label_def split: option.splits)
next
  case (Cons out good)
  then obtain scores label where
    k: "out ''pred_scores'' = Some scores" "out ''label'' = Some label"
    by (auto simp: has_scores_and_label_def)
  from Cons.prems have rest: "list_all has_scores_and_label good" by simp
  show ?case
    using k Cons.IH [OF rest Cons.prems(2)]
    by (simp add: update_def image_pair_def pixel_pair_def)
qed

text \<open>
  Claim C6. Over an epoch whose outputs all have \<^verbatim>\<open>pred_scores\<close> and \<^verbatim>\<open>label\<close>,
  \<^verbatim>\<open>_collect_outputs\<close> feeds the image-level object one pair per output, the scores
  and the label as integers, in order. It feeds the pixel-level object one pair for each
  output that itself carries both \<^verbatim>\<open>mask\<close> and \<^verbatim>\<open>anomaly_maps\<close>, the flattened
  maps and the flattened mask as integers, so a mixed epoch fills it in part. At the
  first output without one of the two keys the loop ends with a \<^verbatim>\<open>KeyError\<close> for
  the key it looked up, the objects fed from the outputs before it.
\<close>

theorem collect_outputs_feeds:
  "(list_all has_scores_and_label outputs \<longrightarrow>
      collect_outputs image_metric pixel_metric outputs =
        (None,
         image_metric\<lparr>fed := fed image_metric @
            map (\<lambda>output. (the (output ''pred_scores''), tensor_int (the (output ''label'')))) outputs\<rparr>,
         pixel_metric\<lparr>fed := fed pixel_metric @
            map (\<lambda>output. (flatten (the (output ''anomaly_maps'')),
                             tensor_int (flatten (the (output ''mask'')))))
              (filter (\<lambda>output. output ''mask'' \<noteq> None \<and> output ''anomaly_maps'' \<noteq> None) outputs)\<rparr>)) \<and>
   (list_all has_scores_and_label outputs \<and> \<not> has_scores_and_label bad \<longrightarrow>
      (collect_outputs image_metric pixel_metric (outputs @ bad # rest) =
        (Some (KeyError (if bad ''pred_scores'' = None then ''pred_scores'' else ''label'')),
         image_metric\<lparr>fed := fed image_metric @
            map (\<lambda>output. (the (output ''pred_scores''), tensor_int (the (output ''label'')))) outputs\<rparr>,
         pixel_metric\<lparr>fed := fed pixel_metric @
            map (\<lambda>output. (flatten (the (output ''anomaly_maps'')),
                             tensor_int (flatten (the (output ''mask'')))))
              (filter (\<lambda>output. output ''mask'' \<noteq> None \<and> output ''anomaly_maps'' \<noteq> None) outputs)\<rparr>)))"
proof -
  have 1: "image_pair = (\<lambda>output. (the (output ''pred_scores''), tensor_int (the (output ''label''))))"
    by (rule ext) (simp add: image_pair_def)
  have 2: "pixel_pair = (\<lambda>output. (flatten (the (output ''anomaly_maps'')),
                             tensor_int (flatten (the (output ''mask'')))))"
    by (rule ext) (simp add: pixel_pair_def)
  have 3: "has_mask_and_maps = (\<lambda>output. output ''mask'' \<noteq> None \<and> output ''anomaly_maps'' \<noteq> None)"
    by (rule ext) (simp add: has_mask_and_maps_def)
  show ?thesis
    using collect_outputs_all [of outputs image_metric pixel_metric]
      collect_outputs_stops [of outputs bad image_metric pixel_metric rest]
    unfolding 1 2 3 by blast
qed

theorem collect_outputs_feeds_witness:
  "list_all has_scores_and_label [masked_output, unmasked_output] \<and>
   \<not> has_scores_and_label Map.empty \<and>
   collect_outputs \<lparr>fed = []\<rparr> \<lparr>fed = []\<rparr> [masked_output, unmasked_output] =
     (None,
      \<lparr>fed = [(vector [0.2], vector [0]), (vector [0.9], vector [1])]\<rparr>,
      \<lparr>fed = [(vector [0.1, 0.3], vector [0, 1])]\<rparr>) \<and>
   collect_outputs \<lparr>fed = []\<rparr> \<lparr>fed = []\<rparr> [masked_output, unmasked_output, Map.empty] =
     (Some (KeyError ''pred_scores''),
      \<lparr>fed = [(vector [0.2], vector [0]), (vector [0.9], vector [1])]\<rparr>,
      \<lparr>fed = [(vector [0.1, 0.3], vector [0, 1])]\<rparr>)"
  using collect_outputs_feeds [of "[masked_output, unmasked_output]" "\<lparr>fed = []\<rparr>" "\<lparr>fed = []\<rparr>" Map.empty "[]"]
  by (simp add: has_scores_and_label_def masked_output_def unmasked_output_def vector_def
      flatten_def tensor_int_def trunc_def update_def has_mask_and_maps_def)

subsection \<open>Adaptive threshold\<close>

lemma compute_adaptive_threshold_ok:
  assumes "list_all has_scores_and_label (first # rest)"
  shows "compute_adaptive_threshold pick self (first # rest) =
     (let it = (image_threshold self)\<lparr>fed := fed (image_threshold self) @ map image_pair (first # rest),
                 threshold_value := pick (fed (image_threshold self) @ map image_pair (first # rest))\<rparr>;
          pf = fed (pixel_threshold self) @ map pixel_pair (filter has_mask_and_maps (first # rest));
          pt = (pixel_threshold self)\<lparr>fed := pf,
                 threshold_value := (if has_mask_and_maps first then pick pf else threshold_value it)\<rparr>
      in (None, self\<lparr>image_threshold := it, pixel_threshold := pt,
             image_metrics := (image_metrics self)\<lparr>F1_threshold := threshold_value it\<rparr>,
             pixel_metrics := (pixel_metrics self)\<lparr>F1_threshold := threshold_value pt\<rparr>\<rparr>))"
  unfolding compute_adaptive_threshold_def collect_outputs_all [OF assms]
  by (simp add: compute_def has_mask_and_maps_def Let_def)

text \<open>
  Claim C1, as the code has it. Over a non-empty epoch whose outputs all have
  \<^verbatim>\<open>pred_scores\<close> and \<^verbatim>\<open>label\<close>, the image threshold is computed from what the
  image-threshold object has been fed. The pixel threshold depends on the first output
  alone: if it carries both \<^verbatim>\<open>mask\<close> and \<^verbatim>\<open>anomaly_maps\<close>, the pixel threshold is
  computed from what the pixel-threshold object has been fed, which is the pairs of the
  outputs that carry both; otherwise it is the image threshold just computed. So when
  every output carries both it is computed from all the pairs, and when none does it is
  the image threshold.
\<close>

theorem pixel_threshold_by_first_output:
  assumes "list_all has_scores_and_label (first # rest)"
  shows
    "fst (compute_adaptive_threshold pick self (first # rest)) = None \<and>
     threshold_value (image_threshold (snd (compute_adaptive_threshold pick self (first # rest)))) =
       pick (fed (image_threshold self) @ map image_pair (first # rest)) \<and>
     threshold_value (pixel_threshold (snd (compute_adaptive_threshold pick self (first # rest)))) =
       (if first ''mask'' \<noteq> None \<and> first ''anomaly_maps'' \<noteq> None
        then pick (fed (pixel_threshold self) @
                   map pixel_pair (filter has_mask_and_maps (first # rest)))
        else threshold_value (image_threshold (snd (compute_adaptive_threshold pick self (first # rest))))) \<and>
     (list_all has_mask_and_maps (first # rest) \<longrightarrow>
        threshold_value (pixel_threshold (snd (compute_adaptive_threshold pick self (first # rest)))) =
          pick (fed (pixel_threshold self) @ map pixel_pair (first # rest))) \<and>
     (list_all (\<lambda>output. \<not> has_mask_and_maps output) (first # rest) \<longrightarrow>
        threshold_value (pixel_threshold (snd (compute_adaptive_threshold pick self (first # rest)))) =
        threshold_value (image_threshold (snd (compute_adaptive_threshold pick self (first # rest)))))"
proof -
  have all: "list_all has_mask_and_maps (first # rest) \<Longrightarrow>
             filter has_mask_and_maps (first # rest) = first # rest"
    by (simp add: list_all_iff)
  show ?thesis
    unfolding compute_adaptive_threshold_ok [OF assms]
    using all by (auto simp: Let_def has_mask_and_maps_def)
qed

theorem pixel_threshold_by_first_output_witness:
  "list_all has_scores_and_label [masked_output, unmasked_output] \<and>
   list_all has_scores_and_label [unmasked_output, masked_output] \<and>
   threshold_value (pixel_threshold (snd (compute_adaptive_threshold largest_fed_prediction
      (init ''segmentation'' True 0.5 0.5) [masked_output, unmasked_output]))) =
     largest_fed_prediction [pixel_pair masked_output] \<and>
   threshold_value (pixel_threshold (snd (compute_adaptive_threshold largest_fed_prediction
      (init ''segmentation'' True 0.5 0.5) [unmasked_output, masked_output]))) =
     largest_fed_prediction [image_pair unmasked_output, image_pair masked_output]"
proof -
  have h1: "list_all has_scores_and_label [masked_output, unmasked_output]"
    and h2: "list_all has_scores_and_label [unmasked_output, masked_output]"
    by (simp_all add: has_scores_and_label_def masked_output_def unmasked_output_def)
  have m: "has_mask_and_maps masked_output" "\<not> has_mask_and_maps unmasked_output"
    by (simp_all add: has_mask_and_maps_def masked_output_def unmasked_output_def)
  have m': "masked_output ''mask'' \<noteq> None" "masked_output ''anomaly_maps'' \<noteq> None"
    "unmasked_output ''mask'' = None"
    by (simp_all add: masked_output_def unmasked_output_def)
  show ?thesis
    using h1 h2 m m'
      pixel_threshold_by_first_output [OF h1, of largest_fed_prediction "init ''segmentation'' True 0.5 0.5"]
      pixel_threshold_by_first_output [OF h2, of largest_fed_prediction "init ''segmentation'' True 0.5 0.5"]
    by (simp add: init_def)
qed

text \<open>
  Claim C1 as stated fails on a mixed epoch that starts with an output carrying both
  keys: not every output carries both, and the pixel threshold is computed from the
  pixel pairs (0.3 here) and is not the image threshold (0.9).
\<close>

theorem mixed_epoch_counterexample:
  "list_all has_scores_and_label [masked_output, unmasked_output] \<and>
   \<not> list_all has_mask_and_maps [masked_output, unmasked_output] \<and>
   threshold_value (image_threshold (snd (compute_adaptive_threshold largest_fed_prediction
      (init ''segmentation'' True 0.5 0.5) [masked_output, unmasked_output]))) = 0.9 \<and>
   threshold_value (pixel_threshold (snd (compute_adaptive_threshold largest_fed_prediction
      (init ''segmentation'' True 0.5 0.5) [masked_output, unmasked_output]))) = 0.3 \<and>
   threshold_value (pixel_threshold (snd (compute_adaptive_threshold largest_fed_prediction
      (init ''segmentation'' True 0.5 0.5) [masked_output, unmasked_output]))) \<noteq>
   threshold_value (image_threshold (snd (compute_adaptive_threshold largest_fed_prediction
      (init ''segmentation'' True 0.5 0.5) [masked_output, unmasked_output])))"
  by (simp add: compute_adaptive_threshold_def compute_def update_def init_def
      masked_output_def unmasked_output_def vector_def has_scores_and_label_def
      has_mask_and_maps_def largest_fed_prediction_def flatten_def tensor_int_def)

subsection \<open>Epoch hooks\<close>

lemma test_epoch_end_ok:
  assumes "list_all has_scores_and_label outputs"
  shows "test_epoch_end self outputs =
     (None, self\<lparr>
        image_metrics := (image_metrics self)\<lparr>fed := fed (image_metrics self) @ map image_pair outputs\<rparr>,
        pixel_metrics := (pixel_metrics self)\<lparr>fed := fed (pixel_metrics self) @
                            map pixel_pair (filter has_mask_and_maps outputs)\<rparr>,
        logged := logged self @
          (if task self = ''segmentation''
           then [(image_metrics self)\<lparr>fed := fed (image_metrics self) @ map image_pair outputs\<rparr>,
                 (pixel_metrics self)\<lparr>fed := fed (pixel_metrics self) @
                            map pixel_pair (filter has_mask_and_maps outputs)\<rparr>]
           else [(image_metrics self)\<lparr>fed := fed (image_metrics self) @ map image_pair outputs\<rparr>])\<rparr>)"
  unfolding test_epoch_end_def collect_outputs_all [OF assms]
  by (simp add: log_metrics_def Let_def)

lemma test_epoch_end_stops:
  assumes "list_all has_scores_and_label outputs" "\<not> has_scores_and_label bad"
  shows "test_epoch_end self (outputs @ bad # rest) =
     (Some (KeyError (if bad ''pred_scores'' = None then ''pred_scores'' else ''label'')),
      self\<lparr>
        image_metrics := (image_metrics self)\<lparr>fed := fed (image_metrics self) @ map image_pair outputs\<rparr>,
        pixel_metrics := (pixel_metrics self)\<lparr>fed := fed (pixel_metrics self) @
                            map pixel_pair (filter has_mask_and_maps outputs)\<rparr>\<rparr>)"
  unfolding test_epoch_end_def collect_outputs_stops [OF assms]
  by simp

lemma validation_epoch_end_adaptive_ok:
  assumes "list_all has_scores_and_label (first # rest)" "adaptive_threshold self"
  shows "fst (validation_epoch_end pick self (first # rest)) = None \<and>
     fed (image_metrics (snd (validation_epoch_end pick self (first # rest)))) =
       fed (image_metrics self) @ map image_pair (first # rest) \<and>
     fed (pixel_metrics (snd (validation_epoch_end pick self (first # rest)))) =
       fed (pixel_metrics self) @ map pixel_pair (filter has_mask_and_maps (first # rest)) \<and>
     map fed (logged (snd (validation_epoch_end pick self (first # rest)))) =
       map fed (logged self) @
         (if task self = ''segmentation''
          then [fed (image_metrics self) @ map image_pair (first # rest),
                fed (pixel_metrics self) @ map pixel_pair (filter has_mask_and_maps (first # rest))]
          else [fed (image_metrics self) @ map image_pair (first # rest)]) \<and>
     threshold_value (image_threshold (snd (validation_epoch_end pick self (first # rest)))) =
       pick (fed (image_threshold self) @ map image_pair (first # rest))"
proof -
  obtain self1 where c: "compute_adaptive_threshold pick self (first # rest) = (None, self1)"
    and t: "task self1 = task self" "logged self1 = logged self"
      "fed (image_metrics self1) = fed (image_metrics self)"
      "fed (pixel_metrics self1) = fed (pixel_metrics self)"
      "threshold_value (image_threshold self1) =
         pick (fed (image_threshold self) @ map image_pair (first # rest))"
    unfolding compute_adaptive_threshold_ok [OF assms(1)] by (simp add: Let_def)
  have v: "validation_epoch_end pick self (first # rest) =
      (None, log_metrics (self1\<lparr>
         image_metrics := (image_metrics self1)\<lparr>fed := fed (image_metrics self1) @
                             map image_pair (first # rest)\<rparr>,
         pixel_metrics := (pixel_metrics self1)\<lparr>fed := fed (pixel_metrics self1) @
                             map pixel_pair (filter has_mask_and_maps (first # rest))\<rparr>\<rparr>))"
    unfolding validation_epoch_end_def using assms(2) c
    by (simp add: collect_outputs_all [OF assms(1)] del: collect_outputs.simps)
  show ?thesis
    unfolding v using t by (simp add: log_metrics_def Let_def)
qed

text \<open>
  Claim C8. \<^verbatim>\<open>test_epoch_end\<close> leaves the image and the pixel threshold objects as
  they were, whatever the outputs are and also when it ends with an error, and it does
  to the metric collections and to the log what \<^verbatim>\<open>validation_epoch_end\<close> does with
  the adaptive threshold switched off. What it does is this: over an epoch whose outputs
  all have \<^verbatim>\<open>pred_scores\<close> and \<^verbatim>\<open>label\<close> it feeds the image collection one pair per
  output and the pixel collection one pair per output carrying both \<^verbatim>\<open>mask\<close> and
  \<^verbatim>\<open>anomaly_maps\<close>, then logs the image collection and, for the task
  \<^verbatim>\<open>segmentation\<close>, the pixel collection; an output without one of the two keys ends
  it with the \<^verbatim>\<open>KeyError\<close>, the collections fed from the outputs before it and nothing
  logged. Over the same non-empty epoch \<^verbatim>\<open>validation_epoch_end\<close> with the adaptive
  threshold switched on feeds and logs the same pairs, and it is the one that recomputes
  the image threshold.
\<close>

theorem test_epoch_end_keeps_thresholds:
  "image_threshold (snd (test_epoch_end self outputs)) = image_threshold self \<and>
   pixel_threshold (snd (test_epoch_end self outputs)) = pixel_threshold self \<and>
   test_epoch_end self outputs =
     (case validation_epoch_end pick (self\<lparr>adaptive_threshold := False\<rparr>) outputs of
        (e, self') \<Rightarrow> (e, self'\<lparr>adaptive_threshold := adaptive_threshold self\<rparr>)) \<and>
   (list_all has_scores_and_label outputs \<longrightarrow>
      test_epoch_end self outputs =
        (None, self\<lparr>
           image_metrics := (image_metrics self)\<lparr>fed := fed (image_metrics self) @
                               map image_pair outputs\<rparr>,
           pixel_metrics := (pixel_metrics self)\<lparr>fed := fed (pixel_metrics self) @
                               map pixel_pair (filter has_mask_and_maps outputs)\<rparr>,
           logged := logged self @
             (if task self = ''segmentation''
              then [(image_metrics self)\<lparr>fed := fed (image_metrics self) @
                       map image_pair outputs\<rparr>,
                    (pixel_metrics self)\<lparr>fed := fed (pixel_metrics self) @
                       map pixel_pair (filter has_mask_and_maps outputs)\<rparr>]
              else [(image_metrics self)\<lparr>fed := fed (image_metrics self) @
                       map image_pair outputs\<rparr>])\<rparr>)) \<and>
   (list_all has_scores_and_label outputs \<and> \<not> has_scores_and_label bad \<longrightarrow>
      test_epoch_end self (outputs @ bad # rest) =
        (Some (KeyError (if bad ''pred_scores'' = None then ''pred_scores'' else ''label'')),
         self\<lparr>
           image_metrics := (image_metrics self)\<lparr>fed := fed (image_metrics self) @
                               map image_pair outputs\<rparr>,
           pixel_metrics := (pixel_metrics self)\<lparr>fed := fed (pixel_metrics self) @
                               map pixel_pair (filter has_mask_and_maps outputs)\<rparr>\<rparr>)) \<and>
   (list_all has_scores_and_label outputs \<and> outputs \<noteq> [] \<and> adaptive_threshold self \<longrightarrow>
      fst (validation_epoch_end pick self outputs) = None \<and>
      fed (image_metrics (snd (validation_epoch_end pick self outputs))) =
        fed (image_metrics (snd (test_epoch_end self outputs))) \<and>
      fed (pixel_metrics (snd (validation_epoch_end pick self outputs))) =
        fed (pixel_metrics (snd (test_epoch_end self outputs))) \<and>
      map fed (logged (snd (validation_epoch_end pick self outputs))) =
        map fed (logged (snd (test_epoch_end self outputs))) \<and>
      threshold_value (image_threshold (snd (validation_epoch_end pick self outputs))) =
        pick (fed (image_threshold self) @ map image_pair outputs))"
proof (intro conjI impI)
  show "image_threshold (snd (test_epoch_end self outputs)) = image_threshold self"
    by (auto simp: test_epoch_end_def log_metrics_def Let_def split: prod.splits option.splits)
  show "pixel_threshold (snd (test_epoch_end self outputs)) = pixel_threshold self"
    by (auto simp: test_epoch_end_def log_metrics_def Let_def split: prod.splits option.splits)
  show "test_epoch_end self outputs =
     (case validation_epoch_end pick (self\<lparr>adaptive_threshold := False\<rparr>) outputs of
        (e, self') \<Rightarrow> (e, self'\<lparr>adaptive_threshold := adaptive_threshold self\<rparr>))"
    by (auto simp: test_epoch_end_def validation_epoch_end_def log_metrics_def Let_def
        split: prod.splits option.splits)
next
  assume "list_all has_scores_and_label outputs"
  then show "test_epoch_end self outputs =
        (None, self\<lparr>
           image_metrics := (image_metrics self)\<lparr>fed := fed (image_metrics self) @
                               map image_pair outputs\<rparr>,
           pixel_metrics := (pixel_metrics self)\<lparr>fed := fed (pixel_metrics self) @
                               map pixel_pair (filter has_mask_and_maps outputs)\<rparr>,
           logged := logged self @
             (if task self = ''segmentation''
              then [(image_metrics self)\<lparr>fed := fed (image_metrics self) @
                       map image_pair outputs\<rparr>,
                    (pixel_metrics self)\<lparr>fed := fed (pixel_metrics self) @
                       map pixel_pair (filter has_mask_and_maps outputs)\<rparr>]
              else [(image_metrics self)\<lparr>fed := fed (image_metrics self) @
                       map image_pair outputs\<rparr>])\<rparr>)"
    by (rule test_epoch_end_ok)
next
  assume "list_all has_scores_and_label outputs \<and> \<not> has_scores_and_label bad"
  then show "test_epoch_end self (outputs @ bad # rest) =
        (Some (KeyError (if bad ''pred_scores'' = None then ''pred_scores'' else ''label'')),
         self\<lparr>
           image_metrics := (image_metrics self)\<lparr>fed := fed (image_metrics self) @
                               map image_pair outputs\<rparr>,
           pixel_metrics := (pixel_metrics self)\<lparr>fed := fed (pixel_metrics self) @
                               map pixel_pair (filter has_mask_and_maps outputs)\<rparr>\<rparr>)"
    by (simp add: test_epoch_end_stops)
next
  assume a: "list_all has_scores_and_label outputs \<and> outputs \<noteq> [] \<and> adaptive_threshold self"
  then obtain first rest' where o: "outputs = first # rest'" by (cases outputs) auto
  have r: "list_all has_scores_and_label (first # rest')" using a o by simp
  note v = validation_epoch_end_adaptive_ok [OF r, of self pick] and t = test_epoch_end_ok [OF r, of self]
  show "fst (validation_epoch_end pick self outputs) = None"
    using a v unfolding o by blast
  show "fed (image_metrics (snd (validation_epoch_end pick self outputs))) =
        fed (image_metrics (snd (test_epoch_end self outputs)))"
    using a v unfolding o t by simp
  show "fed (pixel_metrics (snd (validation_epoch_end pick self outputs))) =
        fed (pixel_metrics (snd (test_epoch_end self outputs)))"
    using a v unfolding o t by simp
  show "map fed (logged (snd (validation_epoch_end pick self outputs))) =
        map fed (logged (snd (test_epoch_end self outputs)))"
    using a v unfolding o t by simp
  show "threshold_value (image_threshold (snd (validation_epoch_end pick self outputs))) =
        pick (fed (image_threshold self) @ map image_pair outputs)"
    using a v unfolding o by blast
qed

theorem test_epoch_end_keeps_thresholds_witness:
  "list_all has_scores_and_label [masked_output, unmasked_output] \<and>
   \<not> has_scores_and_label Map.empty \<and>
   test_epoch_end (init ''segmentation'' True 0.4 0.6) [masked_output, unmasked_output] =
     (None, (init ''segmentation'' True 0.4 0.6)\<lparr>
        image_metrics := \<lparr>fed = [(vector [0.2], vector [0]), (vector [0.9], vector [1])],
                           F1_threshold = 0.5, prefix = ''image_''\<rparr>,
        pixel_metrics := \<lparr>fed = [(vector [0.1, 0.3], vector [0, 1])],
                           F1_threshold = 0.5, prefix = ''pixel_''\<rparr>,
        logged := [\<lparr>fed = [(vector [0.2], vector [0]), (vector [0.9], vector [1])],
                     F1_threshold = 0.5, prefix = ''image_''\<rparr>,
                   \<lparr>fed = [(vector [0.1, 0.3], vector [0, 1])],
                     F1_threshold = 0.5, prefix = ''pixel_''\<rparr>]\<rparr>) \<and>
   test_epoch_end (init ''segmentation'' True 0.4 0.6) [masked_output, Map.empty, unmasked_output] =
     (Some (KeyError ''pred_scores''), (init ''segmentation'' True 0.4 0.6)\<lparr>
        image_metrics := \<lparr>fed = [(vector [0.2], vector [0])],
                           F1_threshold = 0.5, prefix = ''image_''\<rparr>,
        pixel_metrics := \<lparr>fed = [(vector [0.1, 0.3], vector [0, 1])],
                           F1_threshold = 0.5, prefix = ''pixel_''\<rparr>\<rparr>) \<and>
   threshold_value (image_threshold (snd (test_epoch_end (init ''segmentation'' True 0.4 0.6)
      [masked_output, unmasked_output]))) = 0.4 \<and>
   threshold_value (image_threshold (snd (validation_epoch_end largest_fed_prediction
      (init ''segmentation'' True 0.4 0.6) [masked_output, unmasked_output]))) = 0.9 \<and>
   map fed (logged (snd (validation_epoch_end largest_fed_prediction
      (init ''segmentation'' True 0.4 0.6) [masked_output, unmasked_output]))) =
     [[(vector [0.2], vector [0]), (vector [0.9], vector [1])],
      [(vector [0.1, 0.3], vector [0, 1])]]"
proof -
  let ?S = "init ''segmentation'' True 0.4 0.6"
  have h1: "list_all has_scores_and_label [masked_output, unmasked_output]"
    and h2: "list_all has_scores_and_label [masked_output] \<and> \<not> has_scores_and_label Map.empty"
    and h3: "\<not> has_scores_and_label Map.empty"
    by (simp_all add: has_scores_and_label_def masked_output_def unmasked_output_def)
  have a: "list_all has_scores_and_label [masked_output, unmasked_output] \<and>
      [masked_output, unmasked_output] \<noteq> [] \<and> adaptive_threshold ?S"
    using h1 by (simp add: init_def)
  have m: "has_mask_and_maps masked_output" "\<not> has_mask_and_maps unmasked_output"
    by (simp_all add: has_mask_and_maps_def masked_output_def unmasked_output_def)
  have p: "image_pair masked_output = (vector [0.2], vector [0])"
    "image_pair unmasked_output = (vector [0.9], vector [1])"
    "pixel_pair masked_output = (vector [0.1, 0.3], vector [0, 1])"
    by (simp_all add: image_pair_def pixel_pair_def masked_output_def unmasked_output_def
        vector_def flatten_def tensor_int_def trunc_def)
  have l: "largest_fed_prediction [(vector [0.2], vector [0]), (vector [0.9], vector [1])] = 0.9"
    by (simp add: largest_fed_prediction_def vector_def)
  note T1 = test_epoch_end_keeps_thresholds [of ?S "[masked_output, unmasked_output]"
      largest_fed_prediction Map.empty "[]"]
  note T2 = test_epoch_end_keeps_thresholds [of ?S "[masked_output]"
      largest_fed_prediction Map.empty "[unmasked_output]"]
  note frame = T1 [THEN conjunct1]
  note feeds = T1 [THEN conjunct2, THEN conjunct2, THEN conjunct2, THEN conjunct1, THEN mp, OF h1]
  note stops = T2 [THEN conjunct2, THEN conjunct2, THEN conjunct2, THEN conjunct2, THEN conjunct1,
      THEN mp, OF h2]
  note valid = T1 [THEN conjunct2, THEN conjunct2, THEN conjunct2, THEN conjunct2, THEN conjunct2,
      THEN mp, OF a]
  have c3: "test_epoch_end ?S [masked_output, unmasked_output] =
     (None, ?S\<lparr>
        image_metrics := \<lparr>fed = [(vector [0.2], vector [0]), (vector [0.9], vector [1])],
                           F1_threshold = 0.5, prefix = ''image_''\<rparr>,
        pixel_metrics := \<lparr>fed = [(vector [0.1, 0.3], vector [0, 1])],
                           F1_threshold = 0.5, prefix = ''pixel_''\<rparr>,
        logged := [\<lparr>fed = [(vector [0.2], vector [0]), (vector [0.9], vector [1])],
                     F1_threshold = 0.5, prefix = ''image_''\<rparr>,
                   \<lparr>fed = [(vector [0.1, 0.3], vector [0, 1])],
                     F1_threshold = 0.5, prefix = ''pixel_''\<rparr>]\<rparr>)"
    by (subst feeds) (simp add: m p init_def)
  have c4: "test_epoch_end ?S [masked_output, Map.empty, unmasked_output] =
     (Some (KeyError ''pred_scores''), ?S\<lparr>
        image_metrics := \<lparr>fed = [(vector [0.2], vector [0])],
                           F1_threshold = 0.5, prefix = ''image_''\<rparr>,
        pixel_metrics := \<lparr>fed = [(vector [0.1, 0.3], vector [0, 1])],
                           F1_threshold = 0.5, prefix = ''pixel_''\<rparr>\<rparr>)"
  proof -
    have "[masked_output, Map.empty, unmasked_output] =
          [masked_output] @ Map.empty # [unmasked_output]" by simp
    then show ?thesis
      by (simp only: stops) (simp add: m p init_def)
  qed
  have c5: "threshold_value (image_threshold (snd (test_epoch_end ?S
      [masked_output, unmasked_output]))) = 0.4"
    by (simp only: frame) (simp add: init_def)
  have c6: "threshold_value (image_threshold (snd (validation_epoch_end largest_fed_prediction
      ?S [masked_output, unmasked_output]))) = 0.9"
    using valid l by (simp add: p init_def)
  have c7: "map fed (logged (snd (validation_epoch_end largest_fed_prediction
      ?S [masked_output, unmasked_output]))) =
     [[(vector [0.2], vector [0]), (vector [0.9], vector [1])],
      [(vector [0.1, 0.3], vector [0, 1])]]"
  proof -
    have "map fed (logged (snd (test_epoch_end ?S [masked_output, unmasked_output]))) =
       [[(vector [0.2], vector [0]), (vector [0.9], vector [1])],
        [(vector [0.1, 0.3], vector [0, 1])]]"
      by (subst c3) simp
    with valid show ?thesis by simp
  qed
  from h1 h3 c3 c4 c5 c6 c7 show ?thesis by blast
qed

text \<open>
  Claim C10. With \<^verbatim>\<open>adaptive_threshold\<close> false, \<^verbatim>\<open>validation_epoch_end\<close> leaves
  both threshold objects as they were: of the module only the two metric collections
  and the log change. On a module as \<^verbatim>\<open>__init__\<close> builds it the two threshold values
  are therefore still the configured defaults.
\<close>

theorem validation_epoch_end_fixed_thresholds:
  "(\<not> adaptive_threshold self \<longrightarrow>
      image_threshold (snd (validation_epoch_end pick self outputs)) = image_threshold self \<and>
      pixel_threshold (snd (validation_epoch_end pick self outputs)) = pixel_threshold self \<and>
      (\<exists>im pm lg. snd (validation_epoch_end pick self outputs) =
          self\<lparr>image_metrics := im, pixel_metrics := pm, logged := lg\<rparr>)) \<and>
   threshold_value (image_threshold (snd (validation_epoch_end pick
      (init task' False default_image_threshold default_pixel_threshold) outputs))) =
     default_image_threshold \<and>
   threshold_value (pixel_threshold (snd (validation_epoch_end pick
      (init task' False default_image_threshold default_pixel_threshold) outputs))) =
     default_pixel_threshold"
proof -
  have frame: "\<not> adaptive_threshold s \<Longrightarrow>
      image_threshold (snd (validation_epoch_end pick s outputs)) = image_threshold s \<and>
      pixel_threshold (snd (validation_epoch_end pick s outputs)) = pixel_threshold s \<and>
      (\<exists>im pm lg. snd (validation_epoch_end pick s outputs) =
          s\<lparr>image_metrics := im, pixel_metrics := pm, logged := lg\<rparr>)" for s
  proof -
    assume off: "\<not> adaptive_threshold s"
    obtain e im pm where c: "collect_outputs (image_metrics s) (pixel_metrics s) outputs = (e, im, pm)"
      by (cases "collect_outputs (image_metrics s) (pixel_metrics s) outputs") auto
    show ?thesis
    proof (cases e)
      case None
      have "snd (validation_epoch_end pick s outputs) =
            log_metrics (s\<lparr>image_metrics := im, pixel_metrics := pm\<rparr>)"
        using off c None by (simp add: validation_epoch_end_def)
      moreover have "\<exists>lg. log_metrics (s\<lparr>image_metrics := im, pixel_metrics := pm\<rparr>) =
            s\<lparr>image_metrics := im, pixel_metrics := pm, logged := lg\<rparr>"
        by (auto simp: log_metrics_def Let_def)
      ultimately show ?thesis by auto
    next
      case (Some err)
      have "snd (validation_epoch_end pick s outputs) = s\<lparr>image_metrics := im, pixel_metrics := pm\<rparr>"
        using off c Some by (simp add: validation_epoch_end_def)
      moreover have "s\<lparr>image_metrics := im, pixel_metrics := pm\<rparr> =
            s\<lparr>image_metrics := im, pixel_metrics := pm, logged := logged s\<rparr>"
        by simp
      ultimately show ?thesis by (simp, metis)
    qed
  qed
  have off: "\<not> adaptive_threshold (init task' False default_image_threshold default_pixel_threshold)"
    by (simp add: init_def)
  show ?thesis
    using frame [of self] frame [OF off] by (simp add: init_def)
qed

theorem validation_epoch_end_fixed_thresholds_witness:
  "\<not> adaptive_threshold (init ''segmentation'' False 0.4 0.6) \<and>
   threshold_value (image_threshold (snd (validation_epoch_end largest_fed_prediction
      (init ''segmentation'' False 0.4 0.6) [masked_output, unmasked_output]))) = 0.4 \<and>
   threshold_value (pixel_threshold (snd (validation_epoch_end largest_fed_prediction
      (init ''segmentation'' False 0.4 0.6) [masked_output, unmasked_output]))) = 0.6"
  using validation_epoch_end_fixed_thresholds [of "init ''segmentation'' False 0.4 0.6"
      largest_fed_prediction "[masked_output, unmasked_output]" "''segmentation''" "0.4" "0.6"]
  by (simp add: init_def)

subsection \<open>Exporting the results\<close>

text \<open>
  Claim C4. Without a log directory the hook ends with an error and the file system is
  as it was; when the results have one entry per sample in each array the error is the
  \<^verbatim>\<open>ValueError\<close> saying that the log directory does not exist. With a log directory
  and such results, the hook writes a table at \<^verbatim>\<open>results.csv\<close> in that directory and
  nothing else.
\<close>

theorem exporter_log_dir:
  "fst (on_test_epoch_end None module_results fs) \<noteq> None \<and>
   snd (on_test_epoch_end None module_results fs) = fs \<and>
   (results_ok r \<longrightarrow>
      on_test_epoch_end None (Some r) fs =
        (Some (ValueError ''trainer.log_dir does not exist to save the results.''), fs)) \<and>
   (results_ok r \<longrightarrow>
      (\<exists>frame. on_test_epoch_end (Some dir) (Some r) fs =
         (None, fs(Div (Path dir) ''results.csv'' \<mapsto> frame))))"
  by (auto simp: on_test_epoch_end_def results_ok_def logical_xor_def DataFrame_def astype_int_def
      split: option.splits sum.splits)

theorem exporter_log_dir_witness:
  "results_ok example_results \<and>
   on_test_epoch_end None (Some example_results) Map.empty =
     (Some (ValueError ''trainer.log_dir does not exist to save the results.''), Map.empty) \<and>
   (\<exists>frame. on_test_epoch_end (Some ''logs'') (Some example_results) Map.empty =
      (None, [Div (Path ''logs'') ''results.csv'' \<mapsto> frame]))"
  using exporter_log_dir [of None Map.empty example_results "''logs''"]
  by (simp add: results_ok_def example_results_def)

text \<open>
  Claim C5. In the table the hook writes, row \<open>i\<close> has the file name and the true label
  of sample \<open>i\<close>, the predicted label as 0 or 1, and \<^verbatim>\<open>wrong_prediction\<close>, which is the
  exclusive or of "the true label is not zero" and the predicted label, as 0 or 1. For a
  true label that is 0 or 1 this is 1 when the two exported labels differ and 0 when they
  are equal.
\<close>

theorem wrong_prediction_xor:
  assumes "on_test_epoch_end (Some dir) (Some r) fs = (None, fs')"
  shows "\<exists>frame. fs' (Div (Path dir) ''results.csv'') = Some frame \<and>
     length (name frame) = length (filenames r) \<and>
     length (true_label frame) = length (filenames r) \<and>
     length (pred_label frame) = length (filenames r) \<and>
     length (wrong_prediction frame) = length (filenames r) \<and>
     (\<forall>i<length (filenames r).
        name frame ! i = filenames r ! i \<and>
        true_label frame ! i = true_labels r ! i \<and>
        pred_label frame ! i = (if pred_labels r ! i then 1 else 0) \<and>
        wrong_prediction frame ! i =
          (if (true_labels r ! i \<noteq> 0) \<noteq> pred_labels r ! i then 1 else 0) \<and>
        (true_label frame ! i \<in> {0, 1} \<longrightarrow>
           wrong_prediction frame ! i =
             (if true_label frame ! i \<noteq> pred_label frame ! i then 1 else 0)))"
proof -
  let ?wrong = "map (\<lambda>(x, y). (x \<noteq> 0) \<noteq> y) (zip (true_labels r) (pred_labels r))"
  let ?frame = "\<lparr>name = filenames r, true_label = true_labels r,
                  pred_label = astype_int (pred_labels r), wrong_prediction = astype_int ?wrong\<rparr>"
  have ok: "results_ok r"
    using assms
    by (auto simp: on_test_epoch_end_def results_ok_def logical_xor_def DataFrame_def astype_int_def
        split: sum.splits if_splits)
  then have "on_test_epoch_end (Some dir) (Some r) fs = (None, fs(Div (Path dir) ''results.csv'' \<mapsto> ?frame))"
    by (simp add: on_test_epoch_end_def results_ok_def logical_xor_def DataFrame_def astype_int_def)
  with assms have "fs' (Div (Path dir) ''results.csv'') = Some ?frame"
    by auto
  moreover have "\<forall>i<length (filenames r).
        pred_label ?frame ! i = (if pred_labels r ! i then 1 else 0) \<and>
        wrong_prediction ?frame ! i =
          (if (true_labels r ! i \<noteq> 0) \<noteq> pred_labels r ! i then 1 else 0)"
    using ok by (simp add: results_ok_def astype_int_def)
  ultimately show ?thesis
    using ok by (intro exI [of _ ?frame]) (auto simp: results_ok_def astype_int_def)
qed

theorem wrong_prediction_xor_witness:
  "on_test_epoch_end (Some ''logs'') (Some example_results) Map.empty =
     (None, [Div (Path ''logs'') ''results.csv'' \<mapsto>
        \<lparr>name = [''a.png'', ''b.png''], true_label = [1, 1], pred_label = [0, 1],
          wrong_prediction = [1, 0]\<rparr>]) \<and>
   (\<exists>frame. [Div (Path ''logs'') ''results.csv'' \<mapsto>
        \<lparr>name = [''a.png'', ''b.png''], true_label = [1, 1], pred_label = [0, 1],
          wrong_prediction = [1, 0]\<rparr>] (Div (Path ''logs'') ''results.csv'') = Some frame \<and>
      wrong_prediction frame = [1, 0])"
proof -
  have h: "on_test_epoch_end (Some ''logs'') (Some example_results) Map.empty =
     (None, [Div (Path ''logs'') ''results.csv'' \<mapsto>
        \<lparr>name = [''a.png'', ''b.png''], true_label = [1, 1], pred_label = [0, 1],
          wrong_prediction = [1, 0]\<rparr>])"
    by (simp add: on_test_epoch_end_def example_results_def logical_xor_def DataFrame_def
        astype_int_def)
  show ?thesis
    using h wrong_prediction_xor [OF h] by simp
qed

end
